theory Spec2Isabelle
  imports Main "HOL-Library.Sublist"
begin

section \<open>Python strings\<close>

text \<open>
  A Python \<open>str\<close> is modelled as a \<^typ>\<open>string\<close>; a \<^typ>\<open>char\<close> stands for the code point
  of the same number, so the model covers the code points below 256 (ASCII and Latin-1).
  \<open>isspace\<close> lists the code points in that range that \<open>str.strip()\<close> removes;
  \<open>lower_char\<close> is \<open>str.lower()\<close> on one such code point.
\<close>

definition isspace :: "char \<Rightarrow> bool" where
  "isspace c = (of_char c \<in> {9, 10, 11, 12, 13, 28, 29, 30, 31, 32, 133, 160 :: nat})"

definition strip :: "string \<Rightarrow> string" where
  "strip s = rev (dropWhile isspace (rev (dropWhile isspace s)))"

definition lower_char :: "char \<Rightarrow> char" where
  "lower_char c =
     (let n = of_char c :: nat
      in if (65 \<le> n \<and> n \<le> 90) \<or> (192 \<le> n \<and> n \<le> 222 \<and> n \<noteq> 215)
         then char_of (n + 32) else c)"

definition lower_str :: "string \<Rightarrow> string" where
  "lower_str s = map lower_char s"

text \<open>\<open>s.endswith(t)\<close> and \<open>k in s\<close>.\<close>

definition endswith :: "string \<Rightarrow> string \<Rightarrow> bool" where
  "endswith s t = suffix t s"

definition str_in :: "string \<Rightarrow> string \<Rightarrow> bool" where
  "str_in k s = sublist k s"

text \<open>\<open>sep.join(xs)\<close>, \<open>s.split(sep)\<close> for a one-character separator, and \<open>str(n)\<close>.\<close>

fun join :: "string \<Rightarrow> string list \<Rightarrow> string" where
  "join sep [] = []"
| "join sep [x] = x"
| "join sep (x # y # ys) = x @ sep @ join sep (y # ys)"

fun split_str :: "char \<Rightarrow> string \<Rightarrow> string list" where
  "split_str sep [] = [[]]"
| "split_str sep (c # cs) =
     (if c = sep then [] # split_str sep cs
      else (c # hd (split_str sep cs)) # tl (split_str sep cs))"

fun str_nat :: "nat \<Rightarrow> string" where
  "str_nat n =
     (if n < 10 then [char_of (48 + n)]
      else str_nat (n div 10) @ [char_of (48 + n mod 10)])"

declare str_nat.simps [simp del]

section \<open>Regular-expression substitution of the fence patterns\<close>

text \<open>
  \<open>re.sub(lit + r'\n?', '', s)\<close> for a literal \<open>lit\<close> without metacharacters: scanning
  from the left, every occurrence of \<open>lit\<close> is deleted together with one line feed that
  follows it directly; the scan goes on behind the deleted text. Both patterns of the
  source have a non-empty literal.
\<close>

definition skip_newline :: "string \<Rightarrow> string" where
  "skip_newline s = (case s of [] \<Rightarrow> [] | c # cs \<Rightarrow> if c = CHR 0x0A then cs else c # cs)"

function re_sub_fence :: "string \<Rightarrow> string \<Rightarrow> string" where
  "re_sub_fence lit s =
     (if s = [] then []
      else if lit \<noteq> [] \<and> prefix lit s
        then re_sub_fence lit (skip_newline (drop (length lit) s))
      else hd s # re_sub_fence lit (tl s))"
  by pat_completeness auto
termination
proof (relation "measure (\<lambda>(lit, s). length s)")
  show "wf (measure (\<lambda>(lit, s). length s))" by simp
next
  fix lit s :: string
  assume "s \<noteq> []" and "lit \<noteq> [] \<and> prefix lit s"
  moreover have "length (skip_newline t) \<le> length t" for t
    by (simp add: skip_newline_def split: list.splits)
  from this [of "drop (length lit) s"]
  have "length (skip_newline (drop (length lit) s)) \<le> length s - length lit"
    by simp
  ultimately show "((lit, skip_newline (drop (length lit) s)), (lit, s))
      \<in> measure (\<lambda>(lit, s). length s)"
    by (cases lit; cases s) auto
next
  fix lit s :: string
  assume "s \<noteq> []"
  then show "((lit, tl s), (lit, s)) \<in> measure (\<lambda>(lit, s). length s)"
    by (cases s) auto
qed

declare re_sub_fence.simps [simp del]

section \<open>The world outside the process\<close>

text \<open>
  An exception carries its message (\<open>str(e)\<close>). A data frame has named columns and
  rows of cells; \<open>results.empty\<close> holds when either axis has length zero.
\<close>

datatype exn = Exception string

fun str :: "exn \<Rightarrow> string" where
  "str (Exception msg) = msg"

record 'c dataframe =
  columns :: "string list"
  rows :: "'c list list"

definition df_empty :: "'c dataframe \<Rightarrow> bool" where
  "df_empty results = (columns results = [] \<or> rows results = [])"

text \<open>
  The external collaborators: the generative model (\<open>self.model.generate_content(prompt)\<close>
  followed by \<open>response.text\<close>; its answer may depend on the prompts it has seen before),
  \<open>sqlite3.connect\<close>, \<open>pandas.read_sql_query\<close> (which may change the store), and the
  pandas renderings used by the results summary. Each either raises or returns.
\<close>

record ('c, 'db) externals =
  generate_content :: "string list \<Rightarrow> string \<Rightarrow> exn + string"
  connect :: "string \<Rightarrow> exn option"
  read_sql_query :: "string \<Rightarrow> 'db \<Rightarrow> (exn + 'c dataframe) \<times> 'db"
  head_to_string :: "'c dataframe \<Rightarrow> exn + string"
  numeric_columns :: "'c dataframe \<Rightarrow> string list"
  describe_to_string :: "'c dataframe \<Rightarrow> string list \<Rightarrow> exn + string"

text \<open>
  The observable state: the prompts sent to the model so far, the number of connections
  opened by \<open>sqlite3.connect\<close> and not yet closed by \<open>conn.close()\<close>, the statements handed
  to the store, and the store itself.
\<close>

record 'db world =
  prompts :: "string list"
  open_connections :: nat
  statements :: "string list"
  store :: 'db

definition call_model ::
  "('c, 'db) externals \<Rightarrow> string \<Rightarrow> 'db world \<Rightarrow> (exn + string) \<times> 'db world" where
  "call_model ext prompt w =
     (generate_content ext (prompts w) prompt, w\<lparr>prompts := prompts w @ [prompt]\<rparr>)"

section \<open>LLMSQLService\<close>

record service =
  db_path :: string
  schema_info :: string

definition get_schema_info :: string where
  "get_schema_info =
     join [CHR 0x0A]
       ['''',
        ''        DATABASE SCHEMA:'',
        ''        '',
        ''        1. restaurants: Restaurant information'',
        ''           - id (INTEGER): Primary key'',
        ''           - name (TEXT): Restaurant name'',
        ''           - location (TEXT): Restaurant location'',
        ''           - cuisine_type (TEXT): Type of cuisine (Italian, Chinese, etc.)'',
        ''           - capacity (INTEGER): Seating capacity'',
        ''           - created_at (DATETIME): Creation timestamp'',
        ''        '',
        ''        2. menu_items: Menu items for each restaurant'',
        ''           - id (INTEGER): Primary key'',
        ''           - restaurant_id (INTEGER): Foreign key to restaurants'',
        ''           - name (TEXT): Item name'',
        ''           - category (TEXT): Food category (Appetizers, Main Course, etc.)'',
        ''           - price (REAL): Item price'',
        ''           - description (TEXT): Item description'',
        ''           - calories (INTEGER): Calorie count'',
        ''           - is_available (INTEGER): 1 if available, 0 if not'',
        ''        '',
        ''        3. customers: Customer information'',
        ''           - id (INTEGER): Primary key'',
        ''           - name (TEXT): Customer name'',
        ''           - email (TEXT): Customer email'',
        ''           - age_group (TEXT): Age range (18-25, 26-35, etc.)'',
        ''           - preferred_cuisine (TEXT): Preferred cuisine type'',
        ''           - loyalty_points (INTEGER): Loyalty program points'',
        ''           - registration_date (DATETIME): Registration date'',
        ''        '',
        ''        4. orders: Customer orders'',
        ''           - id (INTEGER): Primary key'',
        ''           - restaurant_id (INTEGER): Foreign key to restaurants'',
        ''           - customer_id (INTEGER): Foreign key to customers'',
        ''           - order_date (DATETIME): Order timestamp'',
        ''           - total_amount (REAL): Total order value'',
        ''           - order_type (TEXT): dine-in, takeout, or delivery'',
        ''           - status (TEXT): Order status'',
        ''           - payment_method (TEXT): cash, card, or digital'',
        ''           - table_number (INTEGER): Table number if dine-in'',
        ''        '',
        ''        5. order_items: Items in each order'',
        ''           - id (INTEGER): Primary key'',
        ''           - order_id (INTEGER): Foreign key to orders'',
        ''           - menu_item_id (INTEGER): Foreign key to menu_items'',
        ''           - quantity (INTEGER): Number of items'',
        ''           - unit_price (REAL): Price per unit'',
        ''           - total_price (REAL): Total price for this item'',
        ''        '',
        ''        6. reviews: Customer reviews'',
        ''           - id (INTEGER): Primary key'',
        ''           - restaurant_id (INTEGER): Foreign key to restaurants'',
        ''           - customer_id (INTEGER): Foreign key to customers'',
        ''           - rating (INTEGER): Overall rating (1-5)'',
        ''           - review_text (TEXT): Review content'',
        ''           - review_date (DATETIME): Review timestamp'',
        ''           - food_rating (INTEGER): Food rating (1-5)'',
        ''           - service_rating (INTEGER): Service rating (1-5)'',
        ''           - ambiance_rating (INTEGER): Ambiance rating (1-5)'',
        ''        '']"

definition init_service :: service where
  "init_service = \<lparr>db_path = ''restaurant_analytics.db'', schema_info = get_schema_info\<rparr>"

definition create_sql_prompt :: "service \<Rightarrow> string \<Rightarrow> string" where
  "create_sql_prompt svc question =
     join [CHR 0x0A]
       ['''',
        ''        You are an expert SQL analyst for a restaurant analytics platform. Convert the following natural language question into a SQL query.'',
        ''        '',
        ''        '']
     @ schema_info svc
     @ join [CHR 0x0A]
       ['''',
        ''        '',
        ''        IMPORTANT RULES:'',
        ''        1. Generate ONLY valid SQLite syntax'',
        ''        2. Use proper JOINs when accessing multiple tables'',
        ''        3. Include appropriate WHERE clauses for filtering'',
        ''        4. Use aggregate functions (COUNT, SUM, AVG) when appropriate'',
        ''        5. Limit results to reasonable numbers (use LIMIT clause)'',
        ''        6. Use proper date functions for time-based queries'',
        ''        7. Return only the SQL query, no explanations'',
        ''        '',
        ''        Question: '']
     @ question
     @ join [CHR 0x0A]
       ['''',
        ''        '',
        ''        SQL Query:'',
        ''        '']"

definition clean_sql_query :: "string \<Rightarrow> string" where
  "clean_sql_query sql_query =
     (let q1 = re_sub_fence ''```sql'' sql_query;
          q2 = re_sub_fence ''```'' q1;
          q3 = strip q2
      in if \<not> endswith q3 '';'' then q3 @ '';'' else q3)"

definition generate_sql ::
  "('c, 'db) externals \<Rightarrow> service \<Rightarrow> string \<Rightarrow> 'db world \<Rightarrow> (exn + string) \<times> 'db world" where
  "generate_sql ext svc question w =
     (let prompt = create_sql_prompt svc question;
          (response, w') = call_model ext prompt w
      in case response of
           Inl e \<Rightarrow> (Inl (Exception (''Error generating SQL: '' @ str e)), w')
         | Inr text \<Rightarrow> (Inr (clean_sql_query (strip text)), w'))"

definition execute_sql ::
  "('c, 'db) externals \<Rightarrow> service \<Rightarrow> string \<Rightarrow> 'db world \<Rightarrow> (exn + 'c dataframe) \<times> 'db world" where
  "execute_sql ext svc sql_query w =
     (case connect ext (db_path svc) of
        Some e \<Rightarrow> (Inl (Exception (''Error executing SQL: '' @ str e)), w)
      | None \<Rightarrow>
         (let w1 = w\<lparr>open_connections := open_connections w + 1\<rparr>;
              (outcome, db') = read_sql_query ext sql_query (store w1);
              w2 = w1\<lparr>statements := statements w1 @ [sql_query], store := db'\<rparr>
          in case outcome of
               Inl e \<Rightarrow> (Inl (Exception (''Error executing SQL: '' @ str e)), w2)
             | Inr results \<Rightarrow>
                 (Inr results, w2\<lparr>open_connections := open_connections w2 - 1\<rparr>)))"

definition prepare_results_summary ::
  "('c, 'db) externals \<Rightarrow> 'c dataframe \<Rightarrow> exn + string" where
  "prepare_results_summary ext results =
     (let summary = ''Number of rows: '' @ str_nat (length (rows results)) @ [CHR 0x0A];
          summary = summary @ ''Columns: '' @ join '', '' (columns results)
                      @ [CHR 0x0A, CHR 0x0A];
          summary = summary @ ''Sample data:'' @ [CHR 0x0A]
      in case head_to_string ext results of
           Inl e \<Rightarrow> Inl e
         | Inr sample \<Rightarrow>
            (let summary = summary @ sample;
                 numeric_cols = numeric_columns ext results
             in if length numeric_cols > 0
                then (case describe_to_string ext results numeric_cols of
                        Inl e \<Rightarrow> Inl e
                      | Inr stats \<Rightarrow>
                          Inr (summary @ [CHR 0x0A, CHR 0x0A] @ ''Numeric column statistics:''
                                 @ [CHR 0x0A] @ stats))
                else Inr summary))"

definition insights_prompt :: "string \<Rightarrow> string \<Rightarrow> string" where
  "insights_prompt question results_summary =
     join [CHR 0x0A]
       ['''',
        ''            You are a restaurant business analyst. Based on the following query and results, provide actionable insights.'',
        ''            '',
        ''            Original Question: '']
     @ question
     @ join [CHR 0x0A]
       ['''',
        ''            '',
        ''            Query Results Summary:'',
        ''            '']
     @ results_summary
     @ join [CHR 0x0A]
       ['''',
        ''            '',
        ''            Please provide:'',
        ''            1. Key findings from the data'',
        ''            2. Business implications'',
        ''            3. Actionable recommendations'',
        ''            '',
        ''            Keep the response concise and business-focused.'',
        ''            '']"

definition generate_insights ::
  "('c, 'db) externals \<Rightarrow> string \<Rightarrow> 'c dataframe \<Rightarrow> 'db world \<Rightarrow> string \<times> 'db world" where
  "generate_insights ext question results w =
     (if df_empty results then (''No data found for the given query.'', w)
      else case prepare_results_summary ext results of
             Inl e \<Rightarrow> (''Error generating insights: '' @ str e, w)
           | Inr results_summary \<Rightarrow>
              (let prompt = insights_prompt question results_summary;
                   (response, w') = call_model ext prompt w
               in case response of
                    Inl e \<Rightarrow> (''Error generating insights: '' @ str e, w')
                  | Inr text \<Rightarrow> (strip text, w')))"

definition related_prompt :: "string \<Rightarrow> 'c dataframe \<Rightarrow> string" where
  "related_prompt original_question results =
     join [CHR 0x0A]
       ['''',
        ''            Based on the following restaurant analytics question and its results, suggest 5 related questions that would provide additional insights.'',
        ''            '',
        ''            Original Question: '']
     @ original_question
     @ join [CHR 0x0A]
       ['''',
        ''            '',
        ''            Results columns: '']
     @ (if \<not> df_empty results then join '', '' (columns results) else ''No results'')
     @ join [CHR 0x0A]
       ['''',
        ''            '',
        ''            Generate questions that:'',
        ''            1. Explore different aspects of the same topic'',
        ''            2. Drill down into specific details'',
        ''            3. Compare different time periods or segments'',
        ''            4. Identify trends or patterns'',
        ''            5. Focus on actionable business decisions'',
        ''            '',
        ''            Return only the questions, one per line, without numbering.'',
        ''            '']"

definition fallback_questions :: "string list" where
  "fallback_questions =
     [''What are the top-performing menu items by revenue?'',
      ''How do customer ratings vary by cuisine type?'',
      ''What are the peak ordering hours?'',
      ''Which restaurants have the highest customer retention?'',
      ''What's the average order value by customer age group?'']"

definition get_related_questions ::
  "('c, 'db) externals \<Rightarrow> string \<Rightarrow> 'c dataframe \<Rightarrow> 'db world \<Rightarrow> string list \<times> 'db world" where
  "get_related_questions ext original_question results w =
     (let prompt = related_prompt original_question results;
          (response, w') = call_model ext prompt w
      in case response of
           Inl e \<Rightarrow> (fallback_questions, w')
         | Inr text \<Rightarrow>
            (let questions =
                   map strip (filter (\<lambda>q. strip q \<noteq> []) (split_str (CHR 0x0A) (strip text)))
             in (take 5 questions, w')))"

section \<open>RestaurantAnalytics\<close>

definition process_natural_language_query ::
  "('c, 'db) externals \<Rightarrow> service \<Rightarrow> string \<Rightarrow> 'db world
     \<Rightarrow> (exn + string \<times> 'c dataframe \<times> string) \<times> 'db world" where
  "process_natural_language_query ext svc question w =
     (case generate_sql ext svc question w of
        (Inl e, w1) \<Rightarrow> (Inl e, w1)
      | (Inr sql_query, w1) \<Rightarrow>
         (case execute_sql ext svc sql_query w1 of
            (Inl e, w2) \<Rightarrow> (Inl e, w2)
          | (Inr results, w2) \<Rightarrow>
             (let (insights, w3) = generate_insights ext question results w2
              in (Inr (sql_query, results, insights), w3))))"

definition dangerous_keywords :: "string list" where
  "dangerous_keywords = [''drop'', ''delete'', ''update'', ''insert'', ''alter'', ''create'']"

fun scan_keywords :: "string list \<Rightarrow> string \<Rightarrow> bool" where
  "scan_keywords [] query_lower = True"
| "scan_keywords (keyword # rest) query_lower =
     (if str_in keyword query_lower then False else scan_keywords rest query_lower)"

definition validate_query_safety :: "string \<Rightarrow> bool" where
  "validate_query_safety sql_query =
     (let query_lower = lower_str sql_query
      in scan_keywords dangerous_keywords query_lower)"

section \<open>Notions of the specification\<close>


definition sanitized_body :: "string \<Rightarrow> string" where
  "sanitized_body s = strip (re_sub_fence ''```'' (re_sub_fence ''```sql'' s))"

definition trimmed_lines :: "string \<Rightarrow> string list" where
  "trimmed_lines text = filter (\<lambda>l. l \<noteq> []) (map strip (split_str (CHR 0x0A) text))"

definition suggest_spec :: "string \<Rightarrow> string list" where
  "suggest_spec text = take 5 (trimmed_lines text)"

section \<open>Test doubles\<close>

text \<open>
  As the repository's tests do with \<open>Mock\<close>: a model that gives its scripted replies in
  turn, one per call (a reply is a response text or an exception; when the script is used
  up the call raises, as \<open>Mock(side_effect=[...])\<close> does), and a store that gives one
  fixed outcome to every statement. Cells carry no content here.
\<close>

definition mock_externals ::
  "(exn + string) list \<Rightarrow> exn + unit dataframe \<Rightarrow> (unit, unit) externals" where
  "mock_externals replies outcome =
     \<lparr>generate_content =
        (\<lambda>history prompt.
           case drop (length history) replies of
             [] \<Rightarrow> Inl (Exception ''StopIteration'')
           | reply # later \<Rightarrow> reply),
      connect = (\<lambda>path. None),
      read_sql_query = (\<lambda>sql db. (outcome, db)),
      head_to_string = (\<lambda>results. Inr ''''),
      numeric_columns = (\<lambda>results. []),
      describe_to_string = (\<lambda>results cols. Inr '''')\<rparr>"

definition world0 :: "unit world" where
  "world0 = \<lparr>prompts = [], open_connections = 0, statements = [], store = ()\<rparr>"

definition two_rows :: "unit dataframe" where
  "two_rows = \<lparr>columns = [''name'', ''revenue''], rows = [[(), ()], [(), ()]]\<rparr>"

definition no_rows :: "unit dataframe" where
  "no_rows = \<lparr>columns = [''name'', ''revenue''], rows = []\<rparr>"

section \<open>Lemmas about trimming\<close>

lemma strip_Nil: "strip [] = []"
  by (simp add: strip_def)

lemma strip_all_space: "\<forall>c\<in>set s. isspace c \<Longrightarrow> strip s = []"
proof -
  assume a: "\<forall>c\<in>set s. isspace c"
  then have "dropWhile isspace s = []" by (induction s) auto
  then show ?thesis unfolding strip_def by (simp only: rev.simps dropWhile.simps)
qed

lemma strip_ends:
  assumes "strip s \<noteq> []"
  shows "\<not> isspace (hd (strip s))" and "\<not> isspace (last (strip s))"
proof -
  let ?a = "dropWhile isspace s"
  let ?b = "dropWhile isspace (rev ?a)"
  from assms have b: "?b \<noteq> []" by (simp add: strip_def)
  then have "\<not> isspace (hd ?b)" by (rule hd_dropWhile)
  then show "\<not> isspace (last (strip s))"
    using b by (simp add: strip_def last_rev)
  have a: "?a \<noteq> []"
  proof
    assume "?a = []"
    then have "?b = dropWhile isspace (rev [])" by (rule arg_cong)
    with b show False by simp
  qed
  then have ha: "\<not> isspace (hd ?a)" by (rule hd_dropWhile)
  have "?b \<noteq> [] \<Longrightarrow> last ?b = last (rev ?a)"
    by (metis last_appendR takeWhile_dropWhile_id)
  with b have "last ?b = hd ?a" using a by (simp add: last_rev)
  with ha show "\<not> isspace (hd (strip s))"
    using b by (simp add: strip_def hd_rev)
qed

lemma strip_fixed:
  assumes "s = [] \<or> (\<not> isspace (hd s) \<and> \<not> isspace (last s))"
  shows "strip s = s"
proof (cases s)
  case Nil then show ?thesis by (simp add: strip_def)
next
  case (Cons c cs)
  with assms have h: "\<not> isspace c" and l: "\<not> isspace (last s)" by auto
  from h Cons have 1: "dropWhile isspace s = s" by simp
  from Cons have "rev s \<noteq> []" by simp
  moreover have "hd (rev s) = last s" by (simp add: hd_rev)
  with l have "\<not> isspace (hd (rev s))" by simp
  ultimately have "dropWhile isspace (rev s) = rev s"
    by (cases "rev s") auto
  with 1 show ?thesis by (simp add: strip_def)
qed

lemma strip_idem: "strip (strip s) = strip s"
  using strip_ends [of s] by (intro strip_fixed) blast

lemma sublist_strip: "sublist (strip s) s"
proof -
  have "suffix (dropWhile isspace s) s" by (rule suffix_dropWhile)
  moreover have "prefix (strip s) (dropWhile isspace s)"
    unfolding strip_def
    by (metis suffix_dropWhile suffix_to_prefix rev_rev_ident)
  ultimately show ?thesis
    by (meson prefix_imp_sublist suffix_imp_sublist sublist_order.order_trans)
qed

section \<open>Lemmas about the fence substitution\<close>

lemma re_sub_fence_Nil: "re_sub_fence lit [] = []"
  by (simp add: re_sub_fence.simps)

lemma re_sub_fence_match:
  "lit \<noteq> [] \<Longrightarrow> prefix lit s \<Longrightarrow>
     re_sub_fence lit s = re_sub_fence lit (skip_newline (drop (length lit) s))"
  by (subst re_sub_fence.simps) auto

lemma re_sub_fence_step:
  "\<not> prefix lit (c # cs) \<Longrightarrow> re_sub_fence lit (c # cs) = c # re_sub_fence lit cs"
  by (subst re_sub_fence.simps) simp

lemma re_sub_fence_absent: "\<not> sublist lit s \<Longrightarrow> re_sub_fence lit s = s"
proof (induction s)
  case Nil
  show ?case by (rule re_sub_fence_Nil)
next
  case (Cons c cs)
  from Cons.prems have "\<not> prefix lit (c # cs)" and "\<not> sublist lit cs"
    by (simp_all add: sublist_Cons_right)
  with Cons.IH show ?case by (simp add: re_sub_fence_step)
qed

lemma re_sub_fence_first:
  assumes "prefix [b] (re_sub_fence (b # bs) s)"
  shows "prefix [b] s"
proof (cases s)
  case Nil
  with assms show ?thesis by (simp add: re_sub_fence_Nil)
next
  case (Cons c cs)
  show ?thesis
  proof (cases "prefix (b # bs) s")
    case True
    then show ?thesis by (auto simp: Cons)
  next
    case False
    with assms Cons show ?thesis by (simp add: re_sub_fence_step)
  qed
qed

lemma re_sub_fence_removes: "\<not> sublist [b, b, b] (re_sub_fence [b, b, b] s)"
proof (induction "[b, b, b]" s rule: re_sub_fence.induct)
  case (1 s)
  let ?F = "[b, b, b]"
  show ?case
  proof (cases "s = []")
    case True
    then show ?thesis by (simp add: re_sub_fence_Nil)
  next
    case ne: False
    show ?thesis
    proof (cases "prefix ?F s")
      case True
      with ne "1.hyps"(1) show ?thesis by (simp add: re_sub_fence_match)
    next
      case False
      from ne obtain c cs where s: "s = c # cs" by (cases s) auto
      from False ne "1.hyps"(2) s have ih: "\<not> sublist ?F (re_sub_fence ?F cs)" by simp
      have "\<not> prefix ?F (c # re_sub_fence ?F cs)"
      proof
        assume p: "prefix ?F (c # re_sub_fence ?F cs)"
        then have c: "c = b" and p2: "prefix [b, b] (re_sub_fence ?F cs)" by auto
        from p2 have "prefix [b] (re_sub_fence ?F cs)"
          by (cases "re_sub_fence ?F cs") auto
        then have "prefix [b] cs" by (rule re_sub_fence_first)
        then obtain ds where cs: "cs = b # ds" by (cases cs) auto
        from False s c cs have nd: "\<not> prefix [b] ds" by (cases ds) auto
        then have "\<not> prefix ?F (b # ds)" by (cases ds) auto
        then have "re_sub_fence ?F cs = b # re_sub_fence ?F ds"
          unfolding cs by (rule re_sub_fence_step)
        with p2 have "prefix [b] (re_sub_fence ?F ds)" by simp
        then have "prefix [b] ds" by (rule re_sub_fence_first)
        with nd show False ..
      qed
      with ih have "\<not> sublist ?F (c # re_sub_fence ?F cs)"
        by (simp add: sublist_Cons_right)
      with False s show ?thesis by (simp add: re_sub_fence_step)
    qed
  qed
qed

lemma sublist_fence_sql: "sublist ''```sql'' s \<Longrightarrow> sublist ''```'' s"
proof -
  assume "sublist ''```sql'' s"
  moreover have "sublist ''```'' ''```sql''"
    by (rule prefix_imp_sublist) simp
  ultimately show ?thesis by (meson sublist_order.order_trans)
qed

section \<open>Lemmas about splitting into lines\<close>

lemma split_str_ne: "split_str sep s \<noteq> []"
  by (induction s) auto

lemma split_str_snoc:
  "split_str sep (s @ [c]) =
     (if c = sep then split_str sep s @ [[]]
      else butlast (split_str sep s) @ [last (split_str sep s) @ [c]])"
proof (induction s)
  case Nil
  show ?case by simp
next
  case (Cons d ds)
  obtain l ls where Y: "split_str sep ds = l # ls"
    using split_str_ne [of sep ds] by (cases "split_str sep ds") auto
  have IH: "split_str sep (ds @ [c]) =
      (if c = sep then (l # ls) @ [[]] else butlast (l # ls) @ [last (l # ls) @ [c]])"
    using Cons.IH by (simp only: Y)
  show ?case
    using IH by (cases ls) (auto simp: Y)
qed

lemma strip_Cons_space: "isspace c \<Longrightarrow> strip (c # s) = strip s"
  by (simp add: strip_def)

lemma strip_snoc_space:
  assumes "isspace c"
  shows "strip (s @ [c]) = strip s"
proof (cases "\<forall>x\<in>set s. isspace x")
  case True
  with assms have "\<forall>x\<in>set (s @ [c]). isspace x" by simp
  then have "strip (s @ [c]) = []" by (rule strip_all_space)
  moreover from True have "strip s = []" by (rule strip_all_space)
  ultimately show ?thesis by simp
next
  case False
  then obtain x where "x \<in> set s" and "\<not> isspace x" by blast
  then have "dropWhile isspace (s @ [c]) = dropWhile isspace s @ [c]"
    by (rule dropWhile_append1)
  with assms show ?thesis by (simp add: strip_def)
qed




lemma trimmed_lines_Cons_space:
  assumes "isspace c"
  shows "trimmed_lines (c # s) = trimmed_lines s"
proof -
  obtain l ls where Y: "split_str (CHR 0x0A) s = l # ls"
    using split_str_ne [of "CHR 0x0A" s] by (cases "split_str (CHR 0x0A) s") auto
  show ?thesis
    using assms by (simp add: trimmed_lines_def Y strip_Nil strip_Cons_space)
qed

lemma trimmed_lines_snoc_space:
  assumes "isspace c"
  shows "trimmed_lines (s @ [c]) = trimmed_lines s"
proof -
  let ?Y = "split_str (CHR 0x0A) s"
  have Y: "?Y = butlast ?Y @ [last ?Y]"
    using split_str_ne [of "CHR 0x0A" s] by simp
  have "trimmed_lines s = filter (\<lambda>l. l \<noteq> []) (map strip (butlast ?Y @ [last ?Y]))"
    unfolding trimmed_lines_def using Y by simp
  then show ?thesis
    using assms by (simp add: trimmed_lines_def split_str_snoc strip_Nil strip_snoc_space)
qed

lemma trimmed_lines_dropWhile: "trimmed_lines (dropWhile isspace s) = trimmed_lines s"
  by (induction s) (simp_all add: trimmed_lines_Cons_space)

lemma trimmed_lines_rev_dropWhile: "trimmed_lines (rev (dropWhile isspace t)) = trimmed_lines (rev t)"
  by (induction t) (simp_all add: trimmed_lines_snoc_space)

lemma trimmed_lines_strip: "trimmed_lines (strip s) = trimmed_lines s"
proof -
  have "trimmed_lines (strip s) = trimmed_lines (rev (rev (dropWhile isspace s)))"
    unfolding strip_def by (rule trimmed_lines_rev_dropWhile)
  then show ?thesis by (simp add: trimmed_lines_dropWhile)
qed

lemma comprehension_eq:
  "map strip (filter (\<lambda>q. strip q \<noteq> []) xs) = filter (\<lambda>l. l \<noteq> []) (map strip xs)"
  by (induction xs) auto

section \<open>Lemmas about sanitization\<close>

lemma clean_sql_query_eq:
  "clean_sql_query s =
     (if endswith (strip (re_sub_fence ''```'' (re_sub_fence ''```sql'' s))) '';''
      then strip (re_sub_fence ''```'' (re_sub_fence ''```sql'' s))
      else strip (re_sub_fence ''```'' (re_sub_fence ''```sql'' s)) @ '';'')"
  by (simp add: clean_sql_query_def Let_def)

lemma endswith_semicolon: "endswith s '';'' \<longleftrightarrow> s \<noteq> [] \<and> last s = CHR '';''"
  unfolding endswith_def by (cases s rule: rev_cases) auto

lemma not_space_semicolon: "\<not> isspace (CHR '';'')"
  by (simp add: isspace_def)

lemma clean_sql_query_ends: "endswith (clean_sql_query s) '';''"
  by (simp add: clean_sql_query_eq endswith_semicolon)

lemma clean_sql_query_trimmed:
  "\<not> isspace (hd (clean_sql_query s))" "\<not> isspace (last (clean_sql_query s))"
proof -
  let ?t = "strip (re_sub_fence ''```'' (re_sub_fence ''```sql'' s))"
  show "\<not> isspace (last (clean_sql_query s))"
    using clean_sql_query_ends [of s] by (simp add: endswith_semicolon not_space_semicolon)
  show "\<not> isspace (hd (clean_sql_query s))"
  proof (cases "?t = []")
    case True
    then show ?thesis
      by (simp add: clean_sql_query_eq endswith_semicolon not_space_semicolon)
  next
    case False
    then have "\<not> isspace (hd ?t)" by (rule strip_ends)
    with False show ?thesis by (simp add: clean_sql_query_eq)
  qed
qed

lemma clean_sql_query_no_fence: "\<not> str_in ''```'' (clean_sql_query s)"
proof -
  let ?u = "re_sub_fence ''```'' (re_sub_fence ''```sql'' s)"
  have u: "\<not> sublist ''```'' ?u" by (rule re_sub_fence_removes)
  have "sublist (strip ?u) ?u" by (rule sublist_strip)
  with u have t: "\<not> sublist ''```'' (strip ?u)"
    by (meson sublist_order.order_trans)
  have "\<not> sublist ''```'' (strip ?u @ '';'')"
  proof
    assume "sublist ''```'' (strip ?u @ '';'')"
    then obtain ps ss where e: "strip ?u @ '';'' = ps @ ''```'' @ ss"
      unfolding sublist_def by blast
    show False
    proof (cases ss rule: rev_cases)
      case Nil
      with e show False by simp
    next
      case (snoc ss' c)
      with e have "strip ?u = ps @ ''```'' @ ss'" by simp
      with t show False unfolding sublist_def by blast
    qed
  qed
  with t show ?thesis by (simp add: clean_sql_query_eq str_in_def)
qed

lemma clean_sql_query_idem: "clean_sql_query (clean_sql_query s) = clean_sql_query s"
proof -
  let ?r = "clean_sql_query s"
  have nf: "\<not> sublist ''```'' ?r"
    using clean_sql_query_no_fence [of s] by (simp add: str_in_def)
  then have "\<not> sublist ''```sql'' ?r" using sublist_fence_sql by blast
  then have 1: "re_sub_fence ''```sql'' ?r = ?r" by (rule re_sub_fence_absent)
  from nf have 2: "re_sub_fence ''```'' ?r = ?r" by (rule re_sub_fence_absent)
  have 3: "strip ?r = ?r"
    using clean_sql_query_trimmed [of s] by (intro strip_fixed) simp
  show ?thesis
    by (subst clean_sql_query_eq) (simp only: 1 2 3 clean_sql_query_ends if_True)
qed

lemma clean_sql_query_blank:
  assumes "\<forall>c\<in>set s. isspace c"
  shows "clean_sql_query s = '';''"
proof -
  have "\<not> sublist ''```'' s"
  proof
    assume "sublist ''```'' s"
    then have "CHR ''`'' \<in> set s" unfolding sublist_def by auto
    with assms have "isspace (CHR ''`'')" by blast
    then show False by (simp add: isspace_def)
  qed
  then have "re_sub_fence ''```'' s = s" and "re_sub_fence ''```sql'' s = s"
    using sublist_fence_sql by (blast intro: re_sub_fence_absent)+
  moreover from assms have "strip s = []" by (rule strip_all_space)
  ultimately show ?thesis by (simp add: clean_sql_query_eq endswith_semicolon)
qed










lemmas eval_str = strip_def isspace_def skip_newline_def re_sub_fence.simps endswith_def
  suffix_to_prefix sanitized_body_def clean_sql_query_def Let_def

section \<open>Lemmas about the stages\<close>

lemma generate_sql_eq:
  "generate_sql ext svc q w =
     (case generate_content ext (prompts w) (create_sql_prompt svc q) of
        Inl e \<Rightarrow> Inl (Exception (''Error generating SQL: '' @ str e))
      | Inr text \<Rightarrow> Inr (clean_sql_query (strip text)),
      w\<lparr>prompts := prompts w @ [create_sql_prompt svc q]\<rparr>)"
  by (simp add: generate_sql_def call_model_def Let_def split: sum.splits)

lemma scan_keywords_iff:
  "scan_keywords ks q \<longleftrightarrow> \<not> (\<exists>k\<in>set ks. str_in k q)"
  by (induction ks) auto

lemmas eval_lower = lower_str_def lower_char_def Let_def str_in_def sublist_code char_of_def
  bit_Suc_0_iff

lemma generate_insights_eq:
  "generate_insights ext question results w =
     (if df_empty results then (''No data found for the given query.'', w)
      else case prepare_results_summary ext results of
             Inl e \<Rightarrow> (''Error generating insights: '' @ str e, w)
           | Inr summary \<Rightarrow>
              (case generate_content ext (prompts w) (insights_prompt question summary) of
                 Inl e \<Rightarrow> ''Error generating insights: '' @ str e
               | Inr text \<Rightarrow> strip text,
               w\<lparr>prompts := prompts w @ [insights_prompt question summary]\<rparr>))"
  by (simp add: generate_insights_def call_model_def Let_def split: sum.splits)

lemma strip_eq_Nil_iff: "strip s = [] \<longleftrightarrow> (\<forall>c\<in>set s. isspace c)"
proof
  assume "\<forall>c\<in>set s. isspace c"
  then show "strip s = []" by (rule strip_all_space)
next
  assume e: "strip s = []"
  show "\<forall>c\<in>set s. isspace c"
  proof (rule ccontr)
    assume "\<not> (\<forall>c\<in>set s. isspace c)"
    then have ne: "dropWhile isspace s \<noteq> []" by (induction s) auto
    then have "\<not> isspace (hd (dropWhile isspace s))" by (rule hd_dropWhile)
    moreover have "hd (dropWhile isspace s) \<in> set (rev (dropWhile isspace s))"
      using ne by simp
    ultimately have "dropWhile isspace (rev (dropWhile isspace s)) \<noteq> []"
      by (metis dropWhile_eq_Nil_conv)
    with e show False by (simp add: strip_def)
  qed
qed

lemma split_str_covers:
  "c \<in> set s \<Longrightarrow> c \<noteq> sep \<Longrightarrow> \<exists>l\<in>set (split_str sep s). c \<in> set l"
proof (induction s)
  case Nil
  then show ?case by simp
next
  case (Cons d ds)
  obtain l ls where Y: "split_str sep ds = l # ls"
    using split_str_ne [of sep ds] by (cases "split_str sep ds") auto
  from Cons show ?case by (auto simp: Y)
qed

lemma isspace_newline: "isspace (CHR 0x0A)"
  by (simp add: isspace_def)

lemma trimmed_lines_eq_Nil_iff: "trimmed_lines s = [] \<longleftrightarrow> (\<forall>c\<in>set s. isspace c)"
proof
  assume "\<forall>c\<in>set s. isspace c"
  then have "strip s = []" by (rule strip_all_space)
  then have "trimmed_lines (strip s) = []" by (simp add: trimmed_lines_def strip_Nil)
  then show "trimmed_lines s = []" by (simp add: trimmed_lines_strip)
next
  assume e: "trimmed_lines s = []"
  show "\<forall>c\<in>set s. isspace c"
  proof
    fix c assume c: "c \<in> set s"
    show "isspace c"
    proof (rule ccontr)
      assume n: "\<not> isspace c"
      with isspace_newline have "c \<noteq> CHR 0x0A" by auto
      with c obtain l where l: "l \<in> set (split_str (CHR 0x0A) s)" and "c \<in> set l"
        using split_str_covers by blast
      with n have "strip l \<noteq> []" by (auto simp: strip_eq_Nil_iff)
      with l have "strip l \<in> set (trimmed_lines s)" by (simp add: trimmed_lines_def)
      with e show False by simp
    qed
  qed
qed

lemma get_related_questions_eq:
  "get_related_questions ext q results w =
     (case generate_content ext (prompts w) (related_prompt q results) of
        Inl e \<Rightarrow> fallback_questions
      | Inr text \<Rightarrow> suggest_spec text,
      w\<lparr>prompts := prompts w @ [related_prompt q results]\<rparr>)"
  by (simp add: get_related_questions_def call_model_def Let_def comprehension_eq
      suggest_spec_def trimmed_lines_strip [unfolded trimmed_lines_def] trimmed_lines_def split: sum.splits)

lemma split_str_Cons_case:
  "split_str sep (c # cs) =
     (case split_str sep cs of
        [] \<Rightarrow> []
      | l # ls \<Rightarrow> if c = sep then [] # l # ls else (c # l) # ls)"
  using split_str_ne [of sep cs] by (cases "split_str sep cs") auto

lemmas eval_lines = suggest_spec_def trimmed_lines_def strip_def isspace_def
  split_str.simps(1) split_str_Cons_case




lemma open_connections_execute_sql:
  "connect ext (db_path svc) = None \<Longrightarrow>
     open_connections (snd (execute_sql ext svc sql w)) =
       (case fst (read_sql_query ext sql (store w)) of
          Inl e \<Rightarrow> open_connections w + 1
        | Inr results \<Rightarrow> open_connections w)"
  by (simp add: execute_sql_def Let_def split: prod.splits sum.splits)

section \<open>The claims\<close>

subsection \<open>C1: what sanitization guarantees\<close>




subsection \<open>C2: the connection on the failure path\<close>

text \<open>
  Claim C2 says that \<open>execute_sql\<close> releases its connection on every exit path. The source
  calls \<open>conn.close()\<close> only after \<open>pd.read_sql_query\<close> has returned; when that call raises,
  control goes to the handler, which wraps and re-raises without closing. At a statement
  the store rejects, the call ends with one connection still open; on the success path
  none is left.
\<close>

theorem execute_sql_leaves_connection_open:
  "execute_sql (mock_externals [] (Inl (Exception ''near SELEC: syntax error'')))
       init_service ''SELEC 1;'' world0
     = (Inl (Exception ''Error executing SQL: near SELEC: syntax error''),
        world0\<lparr>open_connections := 1, statements := [''SELEC 1;'']\<rparr>)
   \<and> open_connections (snd (execute_sql (mock_externals [] (Inr two_rows))
       init_service ''SELECT 1;'' world0)) = 0"
  by (simp add: execute_sql_def mock_externals_def world0_def)

subsection \<open>C3: the orchestrator\<close>



subsection \<open>C4: suggestions never raise\<close>

text \<open>
  Claim C4, as the code has it. For every question, table and behaviour of the model,
  \<open>get_related_questions\<close> returns a list of at most five strings, none of them empty.
  When the external call raises, the list is exactly the fallback list, which has five
  non-empty entries. The returned list is empty exactly when the model succeeded with a
  response that has no character other than whitespace.
\<close>

theorem get_related_questions_soft_fail:
  "length (fst (get_related_questions ext q results w)) \<le> 5
   \<and> (\<forall>x\<in>set (fst (get_related_questions ext q results w)). x \<noteq> [])
   \<and> (generate_content ext (prompts w) (related_prompt q results) = Inl e \<longrightarrow>
        fst (get_related_questions ext q results w) = fallback_questions)
   \<and> length fallback_questions = 5 \<and> (\<forall>x\<in>set fallback_questions. x \<noteq> [])
   \<and> (fst (get_related_questions ext q results w) = [] \<longleftrightarrow>
        (\<exists>text. generate_content ext (prompts w) (related_prompt q results) = Inr text
                \<and> (\<forall>c\<in>set text. isspace c)))"
proof -
  have fb: "length fallback_questions = 5" "\<forall>x\<in>set fallback_questions. x \<noteq> []"
    by (simp_all add: fallback_questions_def)
  have sp: "\<forall>x\<in>set (suggest_spec resp). x \<noteq> []" for resp
    by (auto simp: suggest_spec_def trimmed_lines_def dest: in_set_takeD)
  have nil: "suggest_spec resp = [] \<longleftrightarrow> (\<forall>c\<in>set resp. isspace c)" for resp
    by (simp add: suggest_spec_def trimmed_lines_eq_Nil_iff)
  show ?thesis
  proof (cases "generate_content ext (prompts w) (related_prompt q results)")
    case (Inl e')
    with fb show ?thesis by (auto simp: get_related_questions_eq)
  next
    case (Inr resp)
    with fb sp [of resp] nil [of resp] show ?thesis
      by (simp add: get_related_questions_eq suggest_spec_def)
  qed
qed

theorem get_related_questions_soft_fail_witness:
  "fst (get_related_questions (mock_externals [Inl (Exception ''API Error'')] (Inr two_rows))
         ''test question'' two_rows world0) = fallback_questions
   \<and> length (fst (get_related_questions (mock_externals [Inl (Exception ''API Error'')] (Inr two_rows))
         ''test question'' two_rows world0)) = 5
   \<and> fst (get_related_questions (mock_externals [Inr [CHR '' '', CHR 0x0A]] (Inr two_rows))
         ''test question'' two_rows world0) = []"
proof -
  let ?ext = "mock_externals [Inl (Exception ''API Error'')] (Inr two_rows)"
  let ?blank = "mock_externals [Inr [CHR '' '', CHR 0x0A]] (Inr two_rows)"
  have h: "generate_content ?ext (prompts world0) (related_prompt ''test question'' two_rows)
      = Inl (Exception ''API Error'')"
    by (simp add: mock_externals_def world0_def)
  have b: "generate_content ?blank (prompts world0) (related_prompt ''test question'' two_rows)
      = Inr [CHR '' '', CHR 0x0A]"
    by (simp add: mock_externals_def world0_def)
  have s: "\<forall>c\<in>set [CHR '' '', CHR 0x0A]. isspace c"
    by (simp add: isspace_def)
  from h get_related_questions_soft_fail [where ext = ?ext and w = world0
      and q = "''test question''" and results = two_rows and e = "Exception ''API Error''"]
  have 1: "fst (get_related_questions ?ext ''test question'' two_rows world0) = fallback_questions"
    and 2: "length fallback_questions = 5"
    by simp_all
  from b s get_related_questions_soft_fail [where ext = ?blank and w = world0
      and q = "''test question''" and results = two_rows]
  have 3: "fst (get_related_questions ?blank ''test question'' two_rows world0) = []"
    by simp
  from 1 2 3 show ?thesis by simp
qed

text \<open>
  With a model that answers the empty text, the list of suggestions is empty: the
  fallback is taken on an exception only.
\<close>

theorem get_related_questions_blank_reply:
  "fst (get_related_questions (mock_externals [Inr ''''] (Inr two_rows))
         ''test question'' two_rows world0) = []"
  by (simp add: get_related_questions_def call_model_def mock_externals_def world0_def
      strip_def)

subsection \<open>C5: no narration for an empty table\<close>

text \<open>
  Claim C5. For a table with zero rows \<open>generate_insights\<close> returns the fixed literal and
  leaves the world as it was: no prompt is sent to the model.
\<close>

theorem generate_insights_no_rows:
  "rows results = [] \<Longrightarrow>
     generate_insights ext question results w = (''No data found for the given query.'', w)"
  by (simp add: generate_insights_def df_empty_def)

theorem generate_insights_no_rows_witness:
  "rows no_rows = []
   \<and> generate_insights (mock_externals [] (Inr no_rows))
         ''What are the top restaurants by revenue?'' no_rows world0
       = (''No data found for the given query.'', world0)
   \<and> prompts (snd (generate_insights (mock_externals [] (Inr no_rows))
         ''What are the top restaurants by revenue?'' no_rows world0)) = []"
proof -
  have h: "rows no_rows = []" by (simp add: no_rows_def)
  from h generate_insights_no_rows [OF h, of "mock_externals [] (Inr no_rows)"
      "''What are the top restaurants by revenue?''" world0]
  show ?thesis by (simp add: world0_def)
qed

subsection \<open>C6: the safety gate\<close>

text \<open>
  Claim C6. \<open>validate_query_safety\<close> returns false if and only if the lower-cased
  statement contains one of the six keywords as a substring (\<open>str_in\<close> is \<open>sublist\<close>: the
  keyword occurs as a contiguous run of characters, wherever that is).
\<close>

theorem validate_query_safety_iff:
  "(validate_query_safety s = False) =
     (str_in ''drop'' (lower_str s) \<or> str_in ''delete'' (lower_str s)
      \<or> str_in ''update'' (lower_str s) \<or> str_in ''insert'' (lower_str s)
      \<or> str_in ''alter'' (lower_str s) \<or> str_in ''create'' (lower_str s))"
  by (simp add: validate_query_safety_def Let_def scan_keywords_iff dangerous_keywords_def)

text \<open>
  Upper and mixed case, a keyword inside a string literal, a keyword inside an
  identifier, and a read-only statement with none of them.
\<close>

theorem validate_query_safety_iff_witness:
  "validate_query_safety ''DROP TABLE restaurants;'' = False
   \<and> validate_query_safety ''Delete From orders;'' = False
   \<and> validate_query_safety ''SELECT * FROM orders WHERE note = 'please update';'' = False
   \<and> validate_query_safety ''SELECT created_at FROM restaurants;'' = False
   \<and> validate_query_safety ''SELECT COUNT(*) FROM customers;'' = True"
proof -
  have 1: "validate_query_safety ''DROP TABLE restaurants;'' = False"
    using validate_query_safety_iff [of "''DROP TABLE restaurants;''"]
    by (simp add: eval_lower)
  have 2: "validate_query_safety ''Delete From orders;'' = False"
    using validate_query_safety_iff [of "''Delete From orders;''"]
    by (simp add: eval_lower)
  have 3: "validate_query_safety ''SELECT * FROM orders WHERE note = 'please update';'' = False"
    using validate_query_safety_iff [of "''SELECT * FROM orders WHERE note = 'please update';''"]
    by (simp add: eval_lower)
  have 4: "validate_query_safety ''SELECT created_at FROM restaurants;'' = False"
    using validate_query_safety_iff [of "''SELECT created_at FROM restaurants;''"]
    by (simp add: eval_lower)
  have 5: "validate_query_safety ''SELECT COUNT(*) FROM customers;'' = True"
    using validate_query_safety_iff [of "''SELECT COUNT(*) FROM customers;''"]
    by (simp add: eval_lower)
  from 1 2 3 4 5 show ?thesis by simp
qed

subsection \<open>C7: narration fails softly\<close>

text \<open>
  Claim C7. For a non-empty table whose summary has been prepared, a failing call to the
  model makes \<open>generate_insights\<close> return the literal \<open>Error generating insights: \<close>
  followed by the failure message; and the orchestrator, whose earlier stages succeeded,
  still returns the statement and the table, with that string as the insight.
\<close>

theorem generate_insights_soft_fail:
  "(\<not> df_empty results \<and> prepare_results_summary ext results = Inr summary
      \<and> generate_content ext (prompts w) (insights_prompt question summary) = Inl e
    \<longrightarrow> fst (generate_insights ext question results w) = ''Error generating insights: '' @ str e)
   \<and> (generate_sql ext svc question w0 = (Inr sql_query, w1)
      \<and> execute_sql ext svc sql_query w1 = (Inr results, w)
      \<and> \<not> df_empty results \<and> prepare_results_summary ext results = Inr summary
      \<and> generate_content ext (prompts w) (insights_prompt question summary) = Inl e
    \<longrightarrow> fst (process_natural_language_query ext svc question w0)
          = Inr (sql_query, results, ''Error generating insights: '' @ str e))"
  by (simp add: generate_insights_eq process_natural_language_query_def split: prod.splits)

theorem generate_insights_soft_fail_witness:
  "fst (generate_insights
         (mock_externals [Inr ''SELECT name, revenue FROM restaurants;'', Inl (Exception ''API Error'')]
            (Inr two_rows))
         ''What are the top restaurants by revenue?'' two_rows
         (world0\<lparr>prompts := [create_sql_prompt init_service ''What are the top restaurants by revenue?'']\<rparr>))
     = ''Error generating insights: API Error''
   \<and> fst (process_natural_language_query
         (mock_externals [Inr ''SELECT name, revenue FROM restaurants;'', Inl (Exception ''API Error'')]
            (Inr two_rows))
         init_service ''What are the top restaurants by revenue?'' world0)
     = Inr (''SELECT name, revenue FROM restaurants;'', two_rows,
            ''Error generating insights: API Error'')"
proof -
  let ?sql = "''SELECT name, revenue FROM restaurants;''"
  let ?ext = "mock_externals [Inr ?sql, Inl (Exception ''API Error'')] (Inr two_rows)"
  let ?q = "''What are the top restaurants by revenue?''"
  let ?w1 = "world0\<lparr>prompts := [create_sql_prompt init_service ?q]\<rparr>"
  let ?w = "?w1\<lparr>statements := [?sql]\<rparr>"
  let ?summary = "''Number of rows: 2'' @ [CHR 0x0A] @ ''Columns: name, revenue''
      @ [CHR 0x0A, CHR 0x0A] @ ''Sample data:'' @ [CHR 0x0A]"
  have a: "\<not> df_empty two_rows"
    by (simp add: df_empty_def two_rows_def)
  have b: "prepare_results_summary ?ext two_rows = Inr ?summary"
    by (simp add: prepare_results_summary_def mock_externals_def two_rows_def str_nat.simps
        char_of_def bit_Suc_0_iff)
  have c: "generate_content ?ext (prompts ?w) (insights_prompt ?q ?summary)
      = Inl (Exception ''API Error'')"
    by (simp add: mock_externals_def world0_def)
  have c1: "generate_content ?ext (prompts ?w1) (insights_prompt ?q ?summary)
      = Inl (Exception ''API Error'')"
    by (simp add: mock_externals_def world0_def)
  have d: "generate_sql ?ext init_service ?q world0 = (Inr ?sql, ?w1)"
    by (simp add: generate_sql_eq mock_externals_def world0_def eval_str)
  have e: "execute_sql ?ext init_service ?sql ?w1 = (Inr two_rows, ?w)"
    by (simp add: execute_sql_def mock_externals_def world0_def)
  from a b c c1 d e
    generate_insights_soft_fail [where ext = ?ext and results = two_rows and summary = ?summary
      and w = ?w1 and question = ?q and e = "Exception ''API Error''"]
    generate_insights_soft_fail [where ext = ?ext and results = two_rows and summary = ?summary
      and w = ?w and question = ?q and e = "Exception ''API Error''" and svc = init_service
      and ?w0.0 = world0 and sql_query = ?sql and ?w1.0 = ?w1]
  show ?thesis by simp
qed

subsection \<open>C8: parsing the suggestions\<close>

text \<open>
  Claim C8. When the model answers with a text, \<open>get_related_questions\<close> returns the
  first at most five lines of that text that are non-empty after trimming, each trimmed,
  in their order, and nothing else is stripped from them.
\<close>

theorem get_related_questions_parses:
  "generate_content ext (prompts w) (related_prompt q results) = Inr text \<Longrightarrow>
     fst (get_related_questions ext q results w) = suggest_spec text"
  by (simp add: get_related_questions_eq)

text \<open>
  A response with a leading blank, numbering, a bullet, an empty line and six questions.
\<close>

theorem get_related_questions_parses_witness:
  "fst (get_related_questions
         (mock_externals
            [Inr ('' 1. What are the peak hours?'' @ [CHR 0x0A, CHR 0x0A]
                  @ ''- Which cuisine is most popular?  '' @ [CHR 0x0A]
                  @ ''C?'' @ [CHR 0x0A] @ ''D?'' @ [CHR 0x0A] @ ''E?'' @ [CHR 0x0A] @ ''F?'')]
            (Inr two_rows))
         ''What are the top restaurants by revenue?'' two_rows world0)
     = [''1. What are the peak hours?'', ''- Which cuisine is most popular?'',
        ''C?'', ''D?'', ''E?'']"
proof -
  let ?resp = "'' 1. What are the peak hours?'' @ [CHR 0x0A, CHR 0x0A]
                  @ ''- Which cuisine is most popular?  '' @ [CHR 0x0A]
                  @ ''C?'' @ [CHR 0x0A] @ ''D?'' @ [CHR 0x0A] @ ''E?'' @ [CHR 0x0A] @ ''F?''"
  let ?ext = "mock_externals [Inr ?resp] (Inr two_rows)"
  let ?q = "''What are the top restaurants by revenue?''"
  have h: "generate_content ?ext (prompts world0) (related_prompt ?q two_rows) = Inr ?resp"
    by (simp add: mock_externals_def world0_def)
  have "suggest_spec ?resp = [''1. What are the peak hours?'',
      ''- Which cuisine is most popular?'', ''C?'', ''D?'', ''E?'']"
    by (simp add: eval_lines del: split_str.simps(2))
  with get_related_questions_parses [OF h] show ?thesis by simp
qed

subsection \<open>C9: sanitizing twice\<close>

text \<open>
  Claim C9. For a statement that contains no fence delimiter and already ends with the
  terminator, sanitizing twice gives the same string as sanitizing once.
\<close>

theorem clean_sql_query_idempotent:
  "\<not> str_in ''```'' s \<Longrightarrow> endswith s '';'' \<Longrightarrow>
     clean_sql_query (clean_sql_query s) = clean_sql_query s"
  by (rule clean_sql_query_idem)

theorem clean_sql_query_idempotent_witness:
  "\<not> str_in ''```'' ''SELECT * FROM restaurants;'' \<and> endswith ''SELECT * FROM restaurants;'' '';''
   \<and> clean_sql_query ''SELECT * FROM restaurants;'' = ''SELECT * FROM restaurants;''
   \<and> clean_sql_query (clean_sql_query ''SELECT * FROM restaurants;'') = clean_sql_query ''SELECT * FROM restaurants;''"
proof -
  have a: "\<not> str_in ''```'' ''SELECT * FROM restaurants;''"
    by (simp add: str_in_def sublist_code)
  have b: "endswith ''SELECT * FROM restaurants;'' '';''"
    by (simp add: endswith_def suffix_to_prefix)
  have c: "clean_sql_query ''SELECT * FROM restaurants;'' = ''SELECT * FROM restaurants;''"
    by (simp add: eval_str)
  from a b c clean_sql_query_idempotent [OF a b] show ?thesis by simp
qed

subsection \<open>C10: sanitization is total\<close>

text \<open>
  Claim C10. \<open>_clean_sql_query\<close> returns for every input (the function is total: its scan
  terminates), and what it returns ends with a semicolon. For an empty or whitespace-only
  response it returns exactly \<open>;\<close>, and \<open>generate_sql\<close> then returns that one-character
  statement.
\<close>

theorem clean_sql_query_total:
  "endswith (clean_sql_query s) '';''
   \<and> ((\<forall>c\<in>set s. isspace c) \<longrightarrow> clean_sql_query s = '';'')
   \<and> (generate_content ext (prompts w) (create_sql_prompt svc q) = Inr s
        \<and> (\<forall>c\<in>set s. isspace c) \<longrightarrow> fst (generate_sql ext svc q w) = Inr '';'')"
proof -
  have "clean_sql_query (strip s) = '';''" if "\<forall>c\<in>set s. isspace c"
    using that by (simp add: strip_all_space clean_sql_query_blank)
  then show ?thesis
    by (simp add: clean_sql_query_ends clean_sql_query_blank generate_sql_eq)
qed

theorem clean_sql_query_total_witness:
  "clean_sql_query '''' = '';''
   \<and> clean_sql_query [CHR '' '', CHR 0x0A, CHR 0x09] = '';''
   \<and> endswith (clean_sql_query (''```sql'' @ [CHR 0x0A] @ ''```'')) '';''
   \<and> fst (generate_sql (mock_externals [Inr [CHR '' '', CHR 0x0A]] (Inr no_rows)) init_service
          ''What are the top 5 restaurants by revenue?'' world0) = Inr '';''"
proof -
  let ?ext = "mock_externals [Inr [CHR '' '', CHR 0x0A]] (Inr no_rows)"
  let ?q = "''What are the top 5 restaurants by revenue?''"
  note inst = clean_sql_query_total [where ext = ?ext and w = world0 and svc = init_service
      and q = ?q]
  have 1: "clean_sql_query '''' = '';''"
    using inst [where s = "''''"] by simp
  have 2: "clean_sql_query [CHR '' '', CHR 0x0A, CHR 0x09] = '';''"
    using inst [where s = "[CHR '' '', CHR 0x0A, CHR 0x09]"] by (simp add: isspace_def)
  have 3: "endswith (clean_sql_query (''```sql'' @ [CHR 0x0A] @ ''```'')) '';''"
    using inst [where s = "''```sql'' @ [CHR 0x0A] @ ''```''"] by simp
  have 4: "fst (generate_sql ?ext init_service ?q world0) = Inr '';''"
    using inst [where s = "[CHR '' '', CHR 0x0A]"]
    by (simp add: isspace_def mock_externals_def world0_def)
  from 1 2 3 4 show ?thesis by simp
qed

end
